theory Spec2Isabelle
  imports Main "HOL-Library.Word"
begin

unbundle bit_operations_syntax

section \<open>The VME bus of src/devices/bus/vme/vme.cpp\<close>

subsection \<open>Data model\<close>

type_synonym u8 = "8 word"
type_synonym u16 = "16 word"
type_synonym u32 = "32 word"
type_synonym offs_t = "32 word"

text \<open>
  Modelled from the spec: the enum \<open>vme_amod_t\<close> is declared in vme.h, which is not part of
  the source at hand. vme.cpp names three of its enumerators, the single-cycle modifiers
  \<open>A16_SC\<close>, \<open>A24_SC\<close> and \<open>A32_SC\<close>; every other enumerator is \<open>AMOD_other n\<close>, with
  \<open>n\<close> the number the diagnostic prints.
\<close>

datatype vme_amod_t = A16_SC | A24_SC | A32_SC | AMOD_other nat

text \<open>
  The three overloads of \<open>install_device\<close> take 8, 16 and 32 bit handler delegates. A
  delegate is opaque to the bus; it is identified by the name of the handler it binds.
\<close>

type_synonym delegate = string

datatype handler_pair =
    Handlers8 delegate delegate
  | Handlers16 delegate delegate
  | Handlers32 delegate delegate

datatype access_width = D8 | D16 | D32

text \<open>
  How a call can end other than by returning. \<open>fatalerror\<close> is raised with one of two
  diagnostics, which name the overload and the offending value. The other two values are no
  fatal errors: they mark the places where C++ defines no behaviour, a member read before
  \<open>device_start\<close> has set it and, in a sequence of calls, a call made through a null
  pointer.
\<close>

datatype failure =
    Non_supported_address_modifier access_width vme_amod_t
  | Bus_width_not_supported access_width int
  | Null_pointer_dereference
  | Uninitialised_member

text \<open>
  Modelled from the spec: \<open>address_space\<close> belongs to the memory system of the emulator
  core, not to the source at hand. An address space has a native data width
  (\<open>data_width()\<close>) and a decoder table; a decoder binds an inclusive address range to a
  pair of handlers, with a mask. The table keeps the decoders in the order of registration.
\<close>

record decoder =
  dec_start :: offs_t
  dec_end :: offs_t
  dec_handlers :: handler_pair
  dec_mask :: u32

record address_space =
  data_width :: int
  decoder_table :: "decoder list"

text \<open>
  Modelled from the spec: \<open>address_space::install_readwrite_handler\<close>, of the emulator
  core and not part of the source at hand. It registers the range in the address space,
  bound to the given handler pair and the mask as passed. A mask argument of 16 bits reaches
  it widened, with the same value.
\<close>

definition install_readwrite_handler ::
  "offs_t \<Rightarrow> offs_t \<Rightarrow> handler_pair \<Rightarrow> u32 \<Rightarrow> address_space \<Rightarrow> address_space" where
  "install_readwrite_handler addrstart addrend handlers msk space =
     space\<lparr>decoder_table := decoder_table space @
       [\<lparr>dec_start = addrstart, dec_end = addrend, dec_handlers = handlers, dec_mask = msk\<rparr>]\<rparr>"

text \<open>
  Address spaces are shared objects: the bus holds a pointer to one (\<open>m_prgspace\<close>), which
  is its own or that of the processor it delegates to. The store maps every address space
  pointer to the object it designates.
\<close>

type_synonym space_ptr = nat
type_synonym space_store = "space_ptr \<Rightarrow> address_space"

datatype endianness_t = ENDIANNESS_LITTLE | ENDIANNESS_BIG

record address_space_config =
  m_name :: string
  m_endianness :: endianness_t
  m_databus_width :: int
  m_addrbus_width :: int
  m_addrbus_shift :: int

text \<open>
  What \<open>device_start\<close> reads of a \<open>cpu_device\<close>: its program address space,
  \<open>space(AS_PROGRAM)\<close>, and the configuration of that space, \<open>space_config(AS_PROGRAM)\<close>.
\<close>

record cpu_device =
  cpu_program_space :: space_ptr
  cpu_program_config :: address_space_config

type_synonym card_ptr = nat
type_synonym device_ptr = nat

text \<open>
  The members of \<open>vme_device\<close>. The constructors initialise \<open>m_a32_config\<close>,
  \<open>m_allocspaces\<close> and \<open>m_cputag\<close>, and default-construct the card list;
  \<open>m_maincpu\<close>, \<open>m_prgspace\<close> and \<open>m_prgwidth\<close> have no value until \<open>device_start\<close>
  assigns them (\<open>None\<close>; for the pointer \<open>m_maincpu\<close> also the null pointer).
  \<open>m_device_list\<close> holds the pointers to the attached cards, first to last.
\<close>

record vme_device =
  m_a32_config :: address_space_config
  m_allocspaces :: bool
  m_cputag :: string
  m_maincpu :: "cpu_device option"
  m_prgspace :: "space_ptr option"
  m_prgwidth :: "int option"
  m_device_list :: "card_ptr list"

subsection \<open>Installing Data Transfer Bus handlers\<close>

text \<open>
  \<open>m_prgspace->install_readwrite_handler(start, end, rhandler, whandler, mask)\<close>: the
  registration goes to the address space the bus points to.
\<close>

definition prgspace_install ::
  "vme_device \<Rightarrow> offs_t \<Rightarrow> offs_t \<Rightarrow> handler_pair \<Rightarrow> u32 \<Rightarrow> space_store
     \<Rightarrow> (failure + unit) \<times> space_store" where
  "prgspace_install bus start end handlers msk spaces =
     (case m_prgspace bus of
        None \<Rightarrow> (Inl Uninitialised_member, spaces)
      | Some p \<Rightarrow>
          (Inr (), spaces(p := install_readwrite_handler start end handlers msk (spaces p))))"

text \<open>
  The three overloads. Each returns how the call ended and the store as the call left it.
  The first \<open>switch\<close> lets the three single-cycle modifiers through and raises the fatal
  error for any other; the second selects on \<open>m_prgwidth\<close>. For width 16 the source passes
  \<open>(uint16_t)(mask & 0x0000ffff)\<close>, a 16 bit value that is widened again as an argument.
\<close>

definition install_device_d8 ::
  "vme_device \<Rightarrow> vme_amod_t \<Rightarrow> offs_t \<Rightarrow> offs_t \<Rightarrow> delegate \<Rightarrow> delegate \<Rightarrow> u32
     \<Rightarrow> space_store \<Rightarrow> (failure + unit) \<times> space_store" where
  "install_device_d8 bus amod start end rhandler whandler msk spaces =
     (case (case amod of
              A16_SC \<Rightarrow> None
            | A24_SC \<Rightarrow> None
            | A32_SC \<Rightarrow> None
            | _ \<Rightarrow> Some (Non_supported_address_modifier D8 amod)) of
        Some err \<Rightarrow> (Inl err, spaces)
      | None \<Rightarrow>
          (case m_prgwidth bus of
             None \<Rightarrow> (Inl Uninitialised_member, spaces)
           | Some w \<Rightarrow>
               if w = 16 then
                 prgspace_install bus start end (Handlers8 rhandler whandler)
                   (ucast (ucast (msk AND 0x0000ffff) :: u16)) spaces
               else if w = 24 then
                 prgspace_install bus start end (Handlers8 rhandler whandler)
                   (msk AND 0x00ffffff) spaces
               else if w = 32 then
                 prgspace_install bus start end (Handlers8 rhandler whandler) msk spaces
               else (Inl (Bus_width_not_supported D8 w), spaces)))"

definition install_device_d16 ::
  "vme_device \<Rightarrow> vme_amod_t \<Rightarrow> offs_t \<Rightarrow> offs_t \<Rightarrow> delegate \<Rightarrow> delegate \<Rightarrow> u32
     \<Rightarrow> space_store \<Rightarrow> (failure + unit) \<times> space_store" where
  "install_device_d16 bus amod start end rhandler whandler msk spaces =
     (case (case amod of
              A16_SC \<Rightarrow> None
            | A24_SC \<Rightarrow> None
            | A32_SC \<Rightarrow> None
            | _ \<Rightarrow> Some (Non_supported_address_modifier D16 amod)) of
        Some err \<Rightarrow> (Inl err, spaces)
      | None \<Rightarrow>
          (case m_prgwidth bus of
             None \<Rightarrow> (Inl Uninitialised_member, spaces)
           | Some w \<Rightarrow>
               if w = 16 then
                 prgspace_install bus start end (Handlers16 rhandler whandler)
                   (ucast (ucast (msk AND 0x0000ffff) :: u16)) spaces
               else if w = 24 then
                 prgspace_install bus start end (Handlers16 rhandler whandler)
                   (msk AND 0x00ffffff) spaces
               else if w = 32 then
                 prgspace_install bus start end (Handlers16 rhandler whandler) msk spaces
               else (Inl (Bus_width_not_supported D16 w), spaces)))"

definition install_device_d32 ::
  "vme_device \<Rightarrow> vme_amod_t \<Rightarrow> offs_t \<Rightarrow> offs_t \<Rightarrow> delegate \<Rightarrow> delegate \<Rightarrow> u32
     \<Rightarrow> space_store \<Rightarrow> (failure + unit) \<times> space_store" where
  "install_device_d32 bus amod start end rhandler whandler msk spaces =
     (case (case amod of
              A16_SC \<Rightarrow> None
            | A24_SC \<Rightarrow> None
            | A32_SC \<Rightarrow> None
            | _ \<Rightarrow> Some (Non_supported_address_modifier D32 amod)) of
        Some err \<Rightarrow> (Inl err, spaces)
      | None \<Rightarrow>
          (case m_prgwidth bus of
             None \<Rightarrow> (Inl Uninitialised_member, spaces)
           | Some w \<Rightarrow>
               if w = 16 then
                 prgspace_install bus start end (Handlers32 rhandler whandler)
                   (ucast (ucast (msk AND 0x0000ffff) :: u16)) spaces
               else if w = 24 then
                 prgspace_install bus start end (Handlers32 rhandler whandler)
                   (msk AND 0x00ffffff) spaces
               else if w = 32 then
                 prgspace_install bus start end (Handlers32 rhandler whandler) msk spaces
               else (Inl (Bus_width_not_supported D32 w), spaces)))"

text \<open>
  The decoder a successful installation adds: the range and the handlers as given, with the
  mask cut to the native width of the bus, \<open>mask & ((1 << W) - 1)\<close>. The power is taken in
  the natural numbers, where \<open>1 << 32\<close> does not wrap.
\<close>

definition width_mask :: "int \<Rightarrow> u32" where
  "width_mask W = word_of_nat (2 ^ nat W - 1)"

definition registered ::
  "space_ptr \<Rightarrow> offs_t \<Rightarrow> offs_t \<Rightarrow> handler_pair \<Rightarrow> u32 \<Rightarrow> space_store \<Rightarrow> space_store" where
  "registered p start end handlers msk spaces =
     spaces(p := (spaces p)\<lparr>decoder_table := decoder_table (spaces p) @
       [\<lparr>dec_start = start, dec_end = end, dec_handlers = handlers, dec_mask = msk\<rparr>]\<rparr>)"

subsection \<open>Configuration and start-up of the bus\<close>

text \<open>
  Both constructors have the same member initialisers: a big-endian configuration named
  "VME A32" with 32 data and 32 address bits, \<open>m_allocspaces(true)\<close> and
  \<open>m_cputag("maincpu")\<close>. The second one is the constructor for derived device types.
\<close>

definition vme_device_ctor :: vme_device where
  "vme_device_ctor =
     \<lparr>m_a32_config = \<lparr>m_name = ''VME A32'', m_endianness = ENDIANNESS_BIG,
        m_databus_width = 32, m_addrbus_width = 32, m_addrbus_shift = 0\<rparr>,
      m_allocspaces = True,
      m_cputag = ''maincpu'',
      m_maincpu = None, m_prgspace = None, m_prgwidth = None,
      m_device_list = []\<rparr>"

definition vme_device_ctor_derived :: vme_device where
  "vme_device_ctor_derived =
     \<lparr>m_a32_config = \<lparr>m_name = ''VME A32'', m_endianness = ENDIANNESS_BIG,
        m_databus_width = 32, m_addrbus_width = 32, m_addrbus_shift = 0\<rparr>,
      m_allocspaces = True,
      m_cputag = ''maincpu'',
      m_maincpu = None, m_prgspace = None, m_prgwidth = None,
      m_device_list = []\<rparr>"

definition static_set_cputag :: "string \<Rightarrow> vme_device \<Rightarrow> vme_device" where
  "static_set_cputag tag vme = vme\<lparr>m_cputag := tag\<rparr>"

definition static_use_owner_spaces :: "vme_device \<Rightarrow> vme_device" where
  "static_use_owner_spaces vme = vme\<lparr>m_allocspaces := False\<rparr>"

text \<open>
  What \<open>device_start\<close> asks of the device tree: its own program address space,
  \<open>space(AS_PROGRAM)\<close>, and the lookup \<open>owner()->subdevice<cpu_device>(tag)\<close>, which
  yields the null pointer (\<open>None\<close>) when the owner has no such processor.
\<close>

record start_env =
  own_program_space :: space_ptr
  owner_subdevice :: "string \<Rightarrow> cpu_device option"

text \<open>
  \<open>device_start\<close> raises no fatal error and tests nothing but \<open>m_allocspaces\<close>. In the
  delegating branch the result of the lookup is stored in \<open>m_maincpu\<close> and used at once as
  \<open>m_maincpu->space(AS_PROGRAM)\<close>. When the lookup found nothing, that is a call through
  the null pointer, for which C++ defines no behaviour: the source says nothing about what
  happens then, and the model gives \<open>Undefined\<close>, which is neither a return nor a fatal
  error.
\<close>

datatype 'a behaviour = Returns 'a | Undefined

definition device_start :: "start_env \<Rightarrow> space_store \<Rightarrow> vme_device \<Rightarrow> vme_device behaviour" where
  "device_start env spaces bus =
     (if m_allocspaces bus then
        (let prgspace = own_program_space env in
         Returns (bus\<lparr>m_prgspace := Some prgspace,
                      m_prgwidth := Some (data_width (spaces prgspace))\<rparr>))
      else
        (let bus1 = bus\<lparr>m_maincpu := owner_subdevice env (m_cputag bus)\<rparr> in
         case m_maincpu bus1 of
           None \<Rightarrow> Undefined
         | Some cpu \<Rightarrow>
             Returns (bus1\<lparr>m_prgspace := Some (cpu_program_space cpu),
                           m_prgwidth := Some (m_databus_width (cpu_program_config cpu))\<rparr>)))"

definition device_reset :: "vme_device \<Rightarrow> vme_device" where
  "device_reset bus = bus"

subsection \<open>The card list\<close>

text \<open>
  The members of the card interface, and the heap the card objects live in: a card that has
  been deallocated is no longer in it.
\<close>

record device_vme_card_interface =
  m_vme :: "device_ptr option"
  m_vme_tag :: "string option"
  m_vme_slottag :: "string option"
  m_slot :: int
  m_next :: "card_ptr option"

type_synonym card_heap = "card_ptr \<rightharpoonup> device_vme_card_interface"

text \<open>
  Modelled from the spec: \<open>simple_list::append\<close>, of the emulator core and not part of the
  source at hand. The list is the ordered collection of the attached cards; \<open>append\<close> adds
  a card at its end, with no uniqueness check and no effect beyond that.
\<close>

definition simple_list_append :: "card_ptr \<Rightarrow> card_ptr list \<Rightarrow> card_ptr list" where
  "simple_list_append object xs = xs @ [object]"

text \<open>
  Modelled from the spec: \<open>simple_list::detach_all\<close>, of the emulator core and not part of
  the source at hand. It releases all cards of the list (detaches, does not deallocate): the
  list is empty afterwards and the heap of cards is as it was.
\<close>

definition simple_list_detach_all ::
  "card_ptr list \<Rightarrow> card_heap \<Rightarrow> card_ptr list \<times> card_heap" where
  "simple_list_detach_all xs heap = ([], heap)"

definition add_vme_card :: "card_ptr \<Rightarrow> vme_device \<Rightarrow> vme_device" where
  "add_vme_card vme_card bus =
     bus\<lparr>m_device_list := simple_list_append vme_card (m_device_list bus)\<rparr>"

text \<open>The body of the destructor \<open>~vme_device\<close>: the bus as it leaves it, and the heap of cards.\<close>

definition vme_device_dtor :: "vme_device \<Rightarrow> card_heap \<Rightarrow> vme_device \<times> card_heap" where
  "vme_device_dtor bus heap =
     (case simple_list_detach_all (m_device_list bus) heap of
        (xs, heap') \<Rightarrow> (bus\<lparr>m_device_list := xs\<rparr>, heap'))"

text \<open>Attaching a sequence of cards, first to last.\<close>

fun attach_cards :: "card_ptr list \<Rightarrow> vme_device \<Rightarrow> vme_device" where
  "attach_cards [] bus = bus"
| "attach_cards (vme_card # rest) bus = attach_cards rest (add_vme_card vme_card bus)"

subsection \<open>The card interface\<close>

text \<open>
  The constructor of the card interface: no bus, no identifiers, slot 0, no next card.
\<close>

definition device_vme_card_interface_ctor :: device_vme_card_interface where
  "device_vme_card_interface_ctor =
     \<lparr>m_vme = None, m_vme_tag = None, m_vme_slottag = None, m_slot = 0, m_next = None\<rparr>"

definition static_set_vme_tag ::
  "string option \<Rightarrow> string option \<Rightarrow> device_vme_card_interface \<Rightarrow> device_vme_card_interface" where
  "static_set_vme_tag tag slottag vme_card = vme_card\<lparr>m_vme_tag := tag, m_vme_slottag := slottag\<rparr>"

text \<open>
  The part of the running machine a card reaches from \<open>set_vme_device\<close>: the device
  registry \<open>machine().device(tag)\<close>, which takes a \<open>const char *\<close> (possibly null) and
  yields a device pointer or null, and the devices that are buses:
  \<open>dynamic_cast<vme_device *>\<close> of a pointer succeeds exactly where \<open>buses\<close> has an object.
\<close>

record running_machine =
  device :: "string option \<Rightarrow> device_ptr option"
  buses :: "device_ptr \<Rightarrow> vme_device option"

text \<open>
  \<open>set_vme_device\<close> assigns \<open>m_vme\<close> the result of lookup and cast, and attaches the card
  (the pointer \<open>this\<close>) to the bus when that result is not null. \<open>self\<close> is the card
  object the member function is called on.
\<close>

definition set_vme_device ::
  "card_ptr \<Rightarrow> device_vme_card_interface \<Rightarrow> running_machine
     \<Rightarrow> device_vme_card_interface \<times> running_machine" where
  "set_vme_device this self M =
     (case device M (m_vme_tag self) of
        None \<Rightarrow> (self\<lparr>m_vme := None\<rparr>, M)
      | Some d \<Rightarrow>
          (case buses M d of
             None \<Rightarrow> (self\<lparr>m_vme := None\<rparr>, M)
           | Some bus \<Rightarrow>
               (self\<lparr>m_vme := Some d\<rparr>,
                M\<lparr>buses := (buses M)(d := Some (add_vme_card this bus))\<rparr>)))"

text \<open>
  The byte accesses of the card interface, \<open>READ8_MEMBER\<close> and \<open>WRITE8_MEMBER\<close>: a read
  takes the offset and the memory mask and returns a byte, a write takes the data as well.
  Each is given the card it is called on and returns it as the call left it.
\<close>

definition card_read8 ::
  "device_vme_card_interface \<Rightarrow> offs_t \<Rightarrow> u8 \<Rightarrow> u8 \<times> device_vme_card_interface" where
  "card_read8 self offset mem_mask = (let result = (0x00 :: u8) in (result, self))"

definition card_write8 ::
  "device_vme_card_interface \<Rightarrow> offs_t \<Rightarrow> u8 \<Rightarrow> u8 \<Rightarrow> device_vme_card_interface" where
  "card_write8 self offset data mem_mask = self"

subsection \<open>The slot\<close>

text \<open>
  A slot holds the identifiers of its bus and of itself, and the card plugged into it, if
  any (\<open>get_card_device()\<close>). Its byte accesses are given the slot and the heap of cards,
  and return both as the call left them. The read declares a 16 bit \<open>result\<close> of 0 and
  returns it as a byte; the forwarding to the card is commented out in both.
\<close>

record vme_slot_device =
  slot_vme_tag :: "string option"
  slot_vme_slottag :: "string option"
  slot_card_device :: "card_ptr option"

definition vme_slot_device_ctor :: "card_ptr option \<Rightarrow> vme_slot_device" where
  "vme_slot_device_ctor plugged =
     \<lparr>slot_vme_tag = None, slot_vme_slottag = None, slot_card_device = plugged\<rparr>"

definition slot_read8 ::
  "vme_slot_device \<Rightarrow> card_heap \<Rightarrow> offs_t \<Rightarrow> u8 \<Rightarrow> u8 \<times> vme_slot_device \<times> card_heap" where
  "slot_read8 slot heap offset mem_mask =
     (let result = (0x00 :: u16) in (ucast result, slot, heap))"

definition slot_write8 ::
  "vme_slot_device \<Rightarrow> card_heap \<Rightarrow> offs_t \<Rightarrow> u8 \<Rightarrow> u8 \<Rightarrow> vme_slot_device \<times> card_heap" where
  "slot_write8 slot heap offset data mem_mask = (slot, heap)"

subsection \<open>Sequences of calls on a bus\<close>

text \<open>
  The member functions of \<open>vme_device\<close> that can be called on a constructed bus, and the
  effect of a sequence of such calls on the bus and the store of address spaces. A call that
  does not return ends the sequence, which then has no final state: the sequence records the
  fatal error, or that it stopped at a start-up without defined behaviour.
\<close>

datatype bus_call =
    Set_cputag string
  | Use_owner_spaces
  | Device_start start_env
  | Device_reset
  | Add_vme_card card_ptr
  | Install_device access_width vme_amod_t offs_t offs_t delegate delegate u32

fun install_device ::
  "access_width \<Rightarrow> vme_device \<Rightarrow> vme_amod_t \<Rightarrow> offs_t \<Rightarrow> offs_t \<Rightarrow> delegate \<Rightarrow> delegate \<Rightarrow> u32
     \<Rightarrow> space_store \<Rightarrow> (failure + unit) \<times> space_store" where
  "install_device D8 = install_device_d8"
| "install_device D16 = install_device_d16"
| "install_device D32 = install_device_d32"

fun bus_step ::
  "bus_call \<Rightarrow> vme_device \<times> space_store \<Rightarrow> failure + vme_device \<times> space_store" where
  "bus_step (Set_cputag tag) (bus, spaces) = Inr (static_set_cputag tag bus, spaces)"
| "bus_step Use_owner_spaces (bus, spaces) = Inr (static_use_owner_spaces bus, spaces)"
| "bus_step (Device_start env) (bus, spaces) =
     (case device_start env spaces bus of
        Undefined \<Rightarrow> Inl Null_pointer_dereference
      | Returns bus' \<Rightarrow> Inr (bus', spaces))"
| "bus_step Device_reset (bus, spaces) = Inr (device_reset bus, spaces)"
| "bus_step (Add_vme_card vme_card) (bus, spaces) = Inr (add_vme_card vme_card bus, spaces)"
| "bus_step (Install_device dw amod start end rhandler whandler msk) (bus, spaces) =
     (case install_device dw bus amod start end rhandler whandler msk spaces of
        (Inl err, spaces') \<Rightarrow> Inl err
      | (Inr u, spaces') \<Rightarrow> Inr (bus, spaces'))"

fun bus_run ::
  "bus_call list \<Rightarrow> vme_device \<times> space_store \<Rightarrow> failure + vme_device \<times> space_store" where
  "bus_run [] st = Inr st"
| "bus_run (c # cs) st =
     (case bus_step c st of
        Inl err \<Rightarrow> Inl err
      | Inr st' \<Rightarrow> bus_run cs st')"

text \<open>
  A bus identifier resolves to no bus when the registry has no device of that name, or the
  device it has is not a \<open>vme_device\<close>.
\<close>

definition resolves_to_no_bus :: "running_machine \<Rightarrow> string option \<Rightarrow> bool" where
  "resolves_to_no_bus M tag =
     (case device M tag of None \<Rightarrow> True | Some d \<Rightarrow> buses M d = None)"

section \<open>Properties\<close>

subsection \<open>The two switches of \<open>install_device\<close>\<close>

lemma amod_supported:
  "amod \<in> {A16_SC, A24_SC, A32_SC} \<Longrightarrow>
   (case amod of A16_SC \<Rightarrow> None | A24_SC \<Rightarrow> None | A32_SC \<Rightarrow> None | _ \<Rightarrow> Some (e amod)) = None"
  by auto

lemma amod_unsupported:
  "amod \<notin> {A16_SC, A24_SC, A32_SC} \<Longrightarrow>
   (case amod of A16_SC \<Rightarrow> None | A24_SC \<Rightarrow> None | A32_SC \<Rightarrow> None | _ \<Rightarrow> Some (e amod)) =
     Some (e amod)"
  by (cases amod) auto

lemma prgspace_install_resolved:
  "m_prgspace bus = Some p \<Longrightarrow>
   prgspace_install bus start end handlers msk spaces =
     (Inr (), registered p start end handlers msk spaces)"
  by (simp add: prgspace_install_def registered_def install_readwrite_handler_def)

text \<open>The cast to 16 bits and back keeps exactly the low 16 bits.\<close>

lemma narrow16: "(ucast (ucast (msk AND 0x0000ffff :: u32) :: u16) :: u32) = msk AND 0xffff"
proof -
  have m: "(0xffff :: u32) = mask 16" by (simp add: mask_eq_exp_minus_1)
  show ?thesis unfolding m
    by (rule bit_word_eqI) (auto simp: bit_simps)
qed

lemma width_mask_16: "width_mask 16 = 0xffff"
  by (simp add: width_mask_def)

lemma width_mask_24: "width_mask 24 = 0xffffff"
  by (simp add: width_mask_def)

lemma width_mask_32: "msk AND width_mask 32 = msk"
proof -
  have "width_mask 32 = (- 1 :: u32)" by (simp add: width_mask_def)
  then show ?thesis by simp
qed

text \<open>
  Claim C1: with a supported address modifier (\<open>A16_SC\<close>, \<open>A24_SC\<close> or \<open>A32_SC\<close>) and a
  resolved native width \<open>W\<close> of 16, 24 or 32, each of the three overloads of
  \<open>install_device\<close> returns normally and registers the range \<open>(start, end)\<close> with the given
  handlers and the mask \<open>mask & ((1 << W) - 1)\<close>, for every 32 bit mask: that is
  \<open>mask & 0xFFFF\<close> for 16, \<open>mask & 0xFFFFFF\<close> for 24 and the mask itself for 32.
\<close>

theorem install_device_registers_width_mask:
  assumes "amod \<in> {A16_SC, A24_SC, A32_SC}"
    and "m_prgwidth bus = Some W" and "W \<in> {16, 24, 32}"
    and "m_prgspace bus = Some p"
  shows "install_device_d8 bus amod start end rhandler whandler msk spaces =
           (Inr (), registered p start end (Handlers8 rhandler whandler)
                      (msk AND width_mask W) spaces)
       \<and> install_device_d16 bus amod start end rhandler16 whandler16 msk spaces =
           (Inr (), registered p start end (Handlers16 rhandler16 whandler16)
                      (msk AND width_mask W) spaces)
       \<and> install_device_d32 bus amod start end rhandler32 whandler32 msk spaces =
           (Inr (), registered p start end (Handlers32 rhandler32 whandler32)
                      (msk AND width_mask W) spaces)
       \<and> msk AND width_mask 16 = msk AND 0xFFFF
       \<and> msk AND width_mask 24 = msk AND 0xFFFFFF
       \<and> msk AND width_mask 32 = msk"
proof -
  note sw = amod_supported [OF assms(1)]
  note inst = prgspace_install_resolved [OF assms(4)]
  from assms(3) consider "W = 16" | "W = 24" | "W = 32" by auto
  then have "install_device_d8 bus amod start end rhandler whandler msk spaces =
      (Inr (), registered p start end (Handlers8 rhandler whandler)
                 (msk AND width_mask W) spaces)"
    by cases (simp_all add: install_device_d8_def sw assms(2) inst narrow16
        width_mask_16 width_mask_24 width_mask_32)
  moreover from assms(3) consider "W = 16" | "W = 24" | "W = 32" by auto
  then have "install_device_d16 bus amod start end rhandler16 whandler16 msk spaces =
      (Inr (), registered p start end (Handlers16 rhandler16 whandler16)
                 (msk AND width_mask W) spaces)"
    by cases (simp_all add: install_device_d16_def sw assms(2) inst narrow16
        width_mask_16 width_mask_24 width_mask_32)
  moreover from assms(3) consider "W = 16" | "W = 24" | "W = 32" by auto
  then have "install_device_d32 bus amod start end rhandler32 whandler32 msk spaces =
      (Inr (), registered p start end (Handlers32 rhandler32 whandler32)
                 (msk AND width_mask W) spaces)"
    by cases (simp_all add: install_device_d32_def sw assms(2) inst narrow16
        width_mask_16 width_mask_24 width_mask_32)
  ultimately show ?thesis
    by (simp add: width_mask_16 width_mask_24 width_mask_32)
qed

theorem install_device_registers_width_mask_witness:
  "A16_SC \<in> {A16_SC, A24_SC, A32_SC}
   \<and> m_prgwidth (vme_device_ctor\<lparr>m_prgspace := Some 0, m_prgwidth := Some 16\<rparr>) = Some 16
   \<and> (16 :: int) \<in> {16, 24, 32}
   \<and> m_prgspace (vme_device_ctor\<lparr>m_prgspace := Some 0, m_prgwidth := Some 16\<rparr>) = Some 0
   \<and> install_device_d8 (vme_device_ctor\<lparr>m_prgspace := Some 0, m_prgwidth := Some 16\<rparr>)
        A16_SC 0x1000 0x1FFF ''read8'' ''write8'' 0xFFFFFFFF
        (\<lambda>p. \<lparr>data_width = 16, decoder_table = []\<rparr>)
       = (Inr (),
          (\<lambda>p. \<lparr>data_width = 16, decoder_table = []\<rparr>)
            (0 := \<lparr>data_width = 16, decoder_table =
               [\<lparr>dec_start = 0x1000, dec_end = 0x1FFF,
                 dec_handlers = Handlers8 ''read8'' ''write8'', dec_mask = 0xFFFF\<rparr>]\<rparr>))"
  using install_device_registers_width_mask
    [of A16_SC "vme_device_ctor\<lparr>m_prgspace := Some 0, m_prgwidth := Some 16\<rparr>" 16 0
        "0x1000" "0x1FFF" "''read8''" "''write8''" "0xFFFFFFFF"
        "\<lambda>p. \<lparr>data_width = 16, decoder_table = []\<rparr>"]
  by (simp add: registered_def width_mask_16)

text \<open>
  Claim C2: with an address modifier other than \<open>A16_SC\<close>, \<open>A24_SC\<close> and \<open>A32_SC\<close>, each
  of the three overloads ends in the fatal error for the modifier, and the store of address
  spaces is as it was: no decoder has been registered.
\<close>

theorem install_device_unsupported_modifier_fatal:
  assumes "amod \<notin> {A16_SC, A24_SC, A32_SC}"
  shows "install_device_d8 bus amod start end rhandler whandler msk spaces =
           (Inl (Non_supported_address_modifier D8 amod), spaces)
       \<and> install_device_d16 bus amod start end rhandler16 whandler16 msk spaces =
           (Inl (Non_supported_address_modifier D16 amod), spaces)
       \<and> install_device_d32 bus amod start end rhandler32 whandler32 msk spaces =
           (Inl (Non_supported_address_modifier D32 amod), spaces)"
  by (simp add: install_device_d8_def install_device_d16_def install_device_d32_def
      amod_unsupported [OF assms])

theorem install_device_unsupported_modifier_fatal_witness:
  "AMOD_other 13 \<notin> {A16_SC, A24_SC, A32_SC}
   \<and> install_device_d8 (vme_device_ctor\<lparr>m_prgspace := Some 0, m_prgwidth := Some 32\<rparr>)
        (AMOD_other 13) 0x1000 0x1FFF ''read8'' ''write8'' 0xFFFFFFFF
        (\<lambda>p. \<lparr>data_width = 32, decoder_table = []\<rparr>)
       = (Inl (Non_supported_address_modifier D8 (AMOD_other 13)),
          \<lambda>p. \<lparr>data_width = 32, decoder_table = []\<rparr>)"
  using install_device_unsupported_modifier_fatal
    [of "AMOD_other 13" "vme_device_ctor\<lparr>m_prgspace := Some 0, m_prgwidth := Some 32\<rparr>"
        "0x1000" "0x1FFF" "''read8''" "''write8''" "0xFFFFFFFF"
        "\<lambda>p. \<lparr>data_width = 32, decoder_table = []\<rparr>"]
  by simp

text \<open>
  Claim C3: with a supported address modifier and a resolved native width other than 16, 24
  and 32, each of the three overloads ends in the fatal error for the bus width, and the
  store of address spaces is as it was: no decoder has been registered.
\<close>

theorem install_device_unsupported_width_fatal:
  assumes "amod \<in> {A16_SC, A24_SC, A32_SC}"
    and "m_prgwidth bus = Some W" and "W \<notin> {16, 24, 32}"
  shows "install_device_d8 bus amod start end rhandler whandler msk spaces =
           (Inl (Bus_width_not_supported D8 W), spaces)
       \<and> install_device_d16 bus amod start end rhandler16 whandler16 msk spaces =
           (Inl (Bus_width_not_supported D16 W), spaces)
       \<and> install_device_d32 bus amod start end rhandler32 whandler32 msk spaces =
           (Inl (Bus_width_not_supported D32 W), spaces)"
  using assms(3)
  by (simp add: install_device_d8_def install_device_d16_def install_device_d32_def
      amod_supported [OF assms(1)] assms(2))

theorem install_device_unsupported_width_fatal_witness:
  "A24_SC \<in> {A16_SC, A24_SC, A32_SC}
   \<and> m_prgwidth (vme_device_ctor\<lparr>m_prgspace := Some 0, m_prgwidth := Some 8\<rparr>) = Some 8
   \<and> (8 :: int) \<notin> {16, 24, 32}
   \<and> install_device_d16 (vme_device_ctor\<lparr>m_prgspace := Some 0, m_prgwidth := Some 8\<rparr>)
        A24_SC 0x1000 0x1FFF ''read16'' ''write16'' 0x00FF00FF
        (\<lambda>p. \<lparr>data_width = 8, decoder_table = []\<rparr>)
       = (Inl (Bus_width_not_supported D16 8), \<lambda>p. \<lparr>data_width = 8, decoder_table = []\<rparr>)"
  using install_device_unsupported_width_fatal
    [of A24_SC "vme_device_ctor\<lparr>m_prgspace := Some 0, m_prgwidth := Some 8\<rparr>" 8
        "0x1000" "0x1FFF" "''read8''" "''write8''" "0x00FF00FF"
        "\<lambda>p. \<lparr>data_width = 8, decoder_table = []\<rparr>" "''read16''" "''write16''"]
  by simp

text \<open>
  Claim C9: the address modifier is validated before the bus width. When both are
  unsupported, each of the three overloads ends in the fatal error for the modifier, not in
  the one for the width.
\<close>

theorem install_device_modifier_checked_before_width:
  assumes "amod \<notin> {A16_SC, A24_SC, A32_SC}"
    and "m_prgwidth bus = Some W" and "W \<notin> {16, 24, 32}"
  shows "fst (install_device_d8 bus amod start end rhandler whandler msk spaces) =
           Inl (Non_supported_address_modifier D8 amod)
       \<and> fst (install_device_d8 bus amod start end rhandler whandler msk spaces) \<noteq>
           Inl (Bus_width_not_supported D8 W)
       \<and> fst (install_device_d16 bus amod start end rhandler16 whandler16 msk spaces) =
           Inl (Non_supported_address_modifier D16 amod)
       \<and> fst (install_device_d16 bus amod start end rhandler16 whandler16 msk spaces) \<noteq>
           Inl (Bus_width_not_supported D16 W)
       \<and> fst (install_device_d32 bus amod start end rhandler32 whandler32 msk spaces) =
           Inl (Non_supported_address_modifier D32 amod)
       \<and> fst (install_device_d32 bus amod start end rhandler32 whandler32 msk spaces) \<noteq>
           Inl (Bus_width_not_supported D32 W)"
  by (simp add: install_device_d8_def install_device_d16_def install_device_d32_def
      amod_unsupported [OF assms(1)])

theorem install_device_modifier_checked_before_width_witness:
  "AMOD_other 13 \<notin> {A16_SC, A24_SC, A32_SC}
   \<and> m_prgwidth (vme_device_ctor\<lparr>m_prgspace := Some 0, m_prgwidth := Some 8\<rparr>) = Some 8
   \<and> (8 :: int) \<notin> {16, 24, 32}
   \<and> fst (install_device_d32 (vme_device_ctor\<lparr>m_prgspace := Some 0, m_prgwidth := Some 8\<rparr>)
        (AMOD_other 13) 0x1000 0x1FFF ''read32'' ''write32'' 0xFFFFFFFF
        (\<lambda>p. \<lparr>data_width = 8, decoder_table = []\<rparr>))
       = Inl (Non_supported_address_modifier D32 (AMOD_other 13))"
  using install_device_modifier_checked_before_width
    [of "AMOD_other 13" "vme_device_ctor\<lparr>m_prgspace := Some 0, m_prgwidth := Some 8\<rparr>" 8
        "0x1000" "0x1FFF" "''read8''" "''write8''" "0xFFFFFFFF"
        "\<lambda>p. \<lparr>data_width = 8, decoder_table = []\<rparr>" "''read16''" "''write16''"
        "''read32''" "''write32''"]
  by simp

subsection \<open>Start-up\<close>

text \<open>
  A bus that owns its address space always starts; a delegating bus starts when the owner
  has the named processor, and takes the space and the width of that processor. Start-up has
  no defined behaviour exactly when the bus delegates and the owner has no such processor.
\<close>

lemma device_start_own_space:
  "m_allocspaces bus \<Longrightarrow>
   device_start env spaces bus =
     Returns (bus\<lparr>m_prgspace := Some (own_program_space env),
                  m_prgwidth := Some (data_width (spaces (own_program_space env)))\<rparr>)"
  by (simp add: device_start_def Let_def)

lemma device_start_delegated:
  "\<not> m_allocspaces bus \<Longrightarrow> owner_subdevice env (m_cputag bus) = Some cpu \<Longrightarrow>
   device_start env spaces bus =
     Returns (bus\<lparr>m_maincpu := Some cpu, m_prgspace := Some (cpu_program_space cpu),
                  m_prgwidth := Some (m_databus_width (cpu_program_config cpu))\<rparr>)"
  by (simp add: device_start_def Let_def)

lemma device_start_undefined_iff:
  "device_start env spaces bus = Undefined \<longleftrightarrow>
     \<not> m_allocspaces bus \<and> owner_subdevice env (m_cputag bus) = None"
  by (simp add: device_start_def Let_def split: option.splits)

text \<open>
  Claim C4 says that start-up fails fatally when the bus delegates its address space and the
  named processor cannot be found. The source does not do that. For a bus constructed and
  set to delegate by \<open>static_use_owner_spaces\<close>, under an owner without the processor
  "maincpu", \<open>device_start\<close> reaches no fatal error and no test of the lookup: it calls
  \<open>space(AS_PROGRAM)\<close> through the null pointer, and its behaviour is undefined.
\<close>

theorem device_start_missing_processor_undefined:
  "device_start \<lparr>own_program_space = 0, owner_subdevice = (\<lambda>tag. None)\<rparr>
     (\<lambda>p. \<lparr>data_width = 32, decoder_table = []\<rparr>)
     (static_use_owner_spaces vme_device_ctor) = Undefined"
  by (simp add: device_start_def static_use_owner_spaces_def vme_device_ctor_def)

subsection \<open>The card list\<close>

lemma attach_cards_appends:
  "m_device_list (attach_cards cs bus) = m_device_list bus @ cs"
  by (induction cs arbitrary: bus) (simp_all add: add_vme_card_def simple_list_append_def)

text \<open>
  Claim C5: attaching the cards \<open>cs\<close> to a new bus, one \<open>add_vme_card\<close> after the other,
  gives the card list \<open>cs\<close>: as many entries as cards were attached, in the order of
  attachment, whatever that order is and whether or not a card occurs twice (on any bus,
  the cards are added behind those it has). The destructor leaves the card list empty and
  the heap of cards as it was: no card is deallocated.
\<close>

theorem attach_in_order_teardown_detaches:
  "m_device_list (attach_cards cs vme_device_ctor) = cs
   \<and> length (m_device_list (attach_cards cs vme_device_ctor)) = length cs
   \<and> m_device_list (attach_cards cs bus) = m_device_list bus @ cs
   \<and> add_vme_card c bus = bus\<lparr>m_device_list := m_device_list bus @ [c]\<rparr>
   \<and> m_device_list (fst (vme_device_dtor bus heap)) = []
   \<and> length (m_device_list (fst (vme_device_dtor bus heap))) = 0
   \<and> snd (vme_device_dtor bus heap) = heap"
proof -
  have "m_device_list (attach_cards cs vme_device_ctor) = cs"
    by (simp add: attach_cards_appends vme_device_ctor_def)
  moreover have "vme_device_dtor bus heap = (bus\<lparr>m_device_list := []\<rparr>, heap)"
    by (simp add: vme_device_dtor_def simple_list_detach_all_def)
  ultimately show ?thesis
    by (simp add: attach_cards_appends add_vme_card_def simple_list_append_def)
qed

subsection \<open>The card interface and the slot\<close>

text \<open>When the identifier resolves to a bus, the card gets its pointer and joins its list.\<close>

lemma set_vme_device_with_bus:
  "device M (m_vme_tag self) = Some d \<Longrightarrow> buses M d = Some bus \<Longrightarrow>
   set_vme_device this self M =
     (self\<lparr>m_vme := Some d\<rparr>, M\<lparr>buses := (buses M)(d := Some (add_vme_card this bus))\<rparr>)"
  by (simp add: set_vme_device_def)

text \<open>
  Claim C6: when the bus identifier of a card resolves to no bus, \<open>set_vme_device\<close>
  returns normally, the bus pointer \<open>m_vme\<close> of the card is null, nothing else of the card
  changes (a card whose pointer was null is unchanged altogether), and the machine is as it
  was: the card is in the list of no bus.
\<close>

theorem set_vme_device_without_bus:
  assumes "resolves_to_no_bus M (m_vme_tag self)"
  shows "set_vme_device this self M = (self\<lparr>m_vme := None\<rparr>, M)
       \<and> m_vme (fst (set_vme_device this self M)) = None
       \<and> (m_vme self = None \<longrightarrow> fst (set_vme_device this self M) = self)
       \<and> buses (snd (set_vme_device this self M)) = buses M"
proof -
  have "set_vme_device this self M = (self\<lparr>m_vme := None\<rparr>, M)"
    using assms
    by (simp add: set_vme_device_def resolves_to_no_bus_def split: option.splits)
  then show ?thesis by auto
qed

theorem set_vme_device_without_bus_witness:
  "resolves_to_no_bus
     \<lparr>device = (\<lambda>tag. if tag = Some ''maincpu'' then Some 7 else None),
      buses = (\<lambda>d. None)\<rparr>
     (m_vme_tag (static_set_vme_tag (Some ''vme'') (Some ''slot1'') device_vme_card_interface_ctor))
   \<and> m_vme (static_set_vme_tag (Some ''vme'') (Some ''slot1'') device_vme_card_interface_ctor)
       = None
   \<and> set_vme_device 3
        (static_set_vme_tag (Some ''vme'') (Some ''slot1'') device_vme_card_interface_ctor)
        \<lparr>device = (\<lambda>tag. if tag = Some ''maincpu'' then Some 7 else None),
         buses = (\<lambda>d. None)\<rparr>
       = (static_set_vme_tag (Some ''vme'') (Some ''slot1'') device_vme_card_interface_ctor,
          \<lparr>device = (\<lambda>tag. if tag = Some ''maincpu'' then Some 7 else None),
           buses = (\<lambda>d. None)\<rparr>)"
  using set_vme_device_without_bus
    [of "\<lparr>device = (\<lambda>tag. if tag = Some ''maincpu'' then Some 7 else None),
          buses = (\<lambda>d. None)\<rparr>"
        "static_set_vme_tag (Some ''vme'') (Some ''slot1'') device_vme_card_interface_ctor" 3]
  by (simp add: resolves_to_no_bus_def static_set_vme_tag_def device_vme_card_interface_ctor_def)

text \<open>
  Claim C7: at every offset the byte read of the slot returns 0, and the byte write of the
  slot changes nothing, for every offset and value; neither reaches the plugged card: the
  slot and the heap of cards are as they were.
\<close>

theorem slot_byte_access_inert:
  "slot_read8 slot heap offset mem_mask = (0, slot, heap)
   \<and> slot_write8 slot heap offset data mem_mask = (slot, heap)"
  by (simp add: slot_read8_def slot_write8_def)

text \<open>
  Claim C8: at every offset the byte read of the card interface returns 0, and its byte
  write does nothing, for every offset and value: the card is as it was.
\<close>

theorem card_byte_access_inert:
  "card_read8 self offset mem_mask = (0, self)
   \<and> card_write8 self offset data mem_mask = self"
  by (simp add: card_read8_def card_write8_def)

subsection \<open>Ownership of the address space\<close>

lemma bus_step_allocspaces:
  "c \<noteq> Use_owner_spaces \<Longrightarrow> bus_step c (bus, spaces) = Inr (bus', spaces') \<Longrightarrow>
   m_allocspaces bus' = m_allocspaces bus"
  by (cases c)
    (auto simp: static_set_cputag_def device_start_def device_reset_def add_vme_card_def Let_def
      split: if_splits option.splits sum.splits prod.splits behaviour.splits)

lemma bus_run_allocspaces:
  "Use_owner_spaces \<notin> set cs \<Longrightarrow> bus_run cs (bus, spaces) = Inr (bus', spaces') \<Longrightarrow>
   m_allocspaces bus' = m_allocspaces bus"
proof (induction cs arbitrary: bus spaces)
  case Nil
  then show ?case by simp
next
  case (Cons c cs)
  from Cons.prems(2) obtain bus1 spaces1 where
    step: "bus_step c (bus, spaces) = Inr (bus1, spaces1)" and
    rest: "bus_run cs (bus1, spaces1) = Inr (bus', spaces')"
    by (auto split: sum.splits)
  from Cons.prems(1) have "c \<noteq> Use_owner_spaces" and "Use_owner_spaces \<notin> set cs" by auto
  with step rest Cons.IH show ?case
    using bus_step_allocspaces by metis
qed

text \<open>
  Claim C10: a bus as constructed owns its address space (\<open>m_allocspaces\<close> is true) and
  names "maincpu" as the processor to delegate to. \<open>static_use_owner_spaces\<close> sets
  \<open>m_allocspaces\<close> to false and changes nothing else, and it is the only way to delegation:
  a sequence of calls on the bus without it leaves \<open>m_allocspaces\<close> as it was.
\<close>

theorem bus_owns_space_unless_use_owner_spaces:
  "m_allocspaces vme_device_ctor \<and> m_cputag vme_device_ctor = ''maincpu''
   \<and> m_allocspaces vme_device_ctor_derived \<and> m_cputag vme_device_ctor_derived = ''maincpu''
   \<and> static_use_owner_spaces vme = vme\<lparr>m_allocspaces := False\<rparr>
   \<and> (Use_owner_spaces \<notin> set cs \<longrightarrow> bus_run cs (vme, spaces) = Inr (vme', spaces') \<longrightarrow>
        m_allocspaces vme' = m_allocspaces vme)"
  using bus_run_allocspaces [of cs vme spaces vme' spaces']
  by (simp add: vme_device_ctor_def vme_device_ctor_derived_def static_use_owner_spaces_def)

theorem bus_owns_space_unless_use_owner_spaces_witness:
  "Use_owner_spaces \<notin> set
     [Set_cputag ''cpu0'', Add_vme_card 1,
      Device_start \<lparr>own_program_space = 0, owner_subdevice = (\<lambda>tag. None)\<rparr>,
      Device_reset]
   \<and> bus_run
       [Set_cputag ''cpu0'', Add_vme_card 1,
        Device_start \<lparr>own_program_space = 0, owner_subdevice = (\<lambda>tag. None)\<rparr>,
        Device_reset]
       (vme_device_ctor, \<lambda>p. \<lparr>data_width = 32, decoder_table = []\<rparr>)
     = Inr (vme_device_ctor\<lparr>m_cputag := ''cpu0'', m_prgspace := Some 0,
              m_prgwidth := Some 32, m_device_list := [1]\<rparr>,
            \<lambda>p. \<lparr>data_width = 32, decoder_table = []\<rparr>)
   \<and> m_allocspaces (vme_device_ctor\<lparr>m_cputag := ''cpu0'', m_prgspace := Some 0,
        m_prgwidth := Some 32, m_device_list := [1]\<rparr>)
   \<and> \<not> m_allocspaces (static_use_owner_spaces vme_device_ctor)"
  using bus_owns_space_unless_use_owner_spaces
    [of vme_device_ctor
        "[Set_cputag ''cpu0'', Add_vme_card 1,
          Device_start \<lparr>own_program_space = 0, owner_subdevice = (\<lambda>tag. None)\<rparr>,
          Device_reset]"
        "\<lambda>p. \<lparr>data_width = 32, decoder_table = []\<rparr>"
        "vme_device_ctor\<lparr>m_cputag := ''cpu0'', m_prgspace := Some 0,
              m_prgwidth := Some 32, m_device_list := [1]\<rparr>"
        "\<lambda>p. \<lparr>data_width = 32, decoder_table = []\<rparr>"]
  by (simp add: vme_device_ctor_def static_set_cputag_def add_vme_card_def
      simple_list_append_def device_start_def device_reset_def Let_def)

end
